theory Spec2Isabelle
  imports Complex_Main
begin

section \<open>Values shared by the composables\<close>

text \<open>
  JavaScript numbers that carry money (\<open>netWorth\<close>, \<open>assetsTotal\<close>,
  \<open>liabilitiesTotal\<close>, \<open>growth\<close>, \<open>percentage\<close>) are IEEE doubles in the
  source: their operations round, overflow to infinities and know NaN and a signed
  zero. The growth computation is therefore written over an arbitrary type \<open>'n\<close> of
  numbers whose operations are parameters (\<open>'n arithmetic\<close> below), so that what is
  proved of it holds for the doubles of the host; the exact arithmetic of
  \<^typ>\<open>real\<close> is one instance. Numbers that are integers or NaN (a parsed account
  id, a field of a \<open>Date\<close>) are \<^typ>\<open>int option\<close>, \<open>None\<close> being NaN.
  Strings are \<^typ>\<open>string\<close>, one \<^typ>\<open>char\<close> per code unit, so only code units
  below 256 are covered.
\<close>

type_synonym number = "int option"

subsection \<open>Strings: comparison, number formatting, padStart\<close>

text \<open>The relational operators of JavaScript on two strings compare code units from
  the left; a proper prefix is smaller.\<close>

fun str_lt :: "string \<Rightarrow> string \<Rightarrow> bool" where
  "str_lt [] [] = False"
| "str_lt [] (y # ys) = True"
| "str_lt (x # xs) [] = False"
| "str_lt (x # xs) (y # ys) =
     (if (of_char x :: nat) < of_char y then True
      else if (of_char y :: nat) < of_char x then False
      else str_lt xs ys)"

text \<open>\<open>a >= b\<close> on strings is \<open>!(a < b)\<close>.\<close>

definition str_ge :: "string \<Rightarrow> string \<Rightarrow> bool" where
  "str_ge a b = (\<not> str_lt a b)"

definition digit_char :: "nat \<Rightarrow> char" where
  "digit_char d = ''0123456789'' ! d"

fun nat_to_string :: "nat \<Rightarrow> string" where
  "nat_to_string n =
     (if n < 10 then [digit_char n]
      else nat_to_string (n div 10) @ [digit_char (n mod 10)])"

declare nat_to_string.simps [simp del]

text \<open>\<open>String(n)\<close> and the template literal \<open>`${n}`\<close> for an integer or NaN.\<close>

definition number_to_string :: "number \<Rightarrow> string" where
  "number_to_string n =
     (case n of
        None \<Rightarrow> ''NaN''
      | Some i \<Rightarrow>
          if i < 0 then CHR ''-'' # nat_to_string (nat (- i)) else nat_to_string (nat i))"

text \<open>\<open>s.padStart(n, c)\<close> with a one-character filler.\<close>

definition padStart :: "string \<Rightarrow> nat \<Rightarrow> char \<Rightarrow> string" where
  "padStart s n c = replicate (n - length s) c @ s"

text \<open>\<open>xs[i]\<close>: \<open>undefined\<close> out of range.\<close>

definition elem_at :: "'a list \<Rightarrow> nat \<Rightarrow> 'a option" where
  "elem_at xs i = (if i < length xs then Some (xs ! i) else None)"

subsection \<open>Dates\<close>

text \<open>
  A \<open>Date\<close> is an instant, read through two calendars: the local one
  (\<open>getFullYear\<close>, \<open>getMonth\<close>) and UTC (\<open>toISOString\<close>). The time zone
  that relates them belongs to the host, so a valid date carries both readings; an
  invalid one (\<open>new Date(NaN)\<close>) answers NaN to every getter.
\<close>

record civil =
  year :: int
  monthIndex :: nat
  day :: nat
  hours :: nat
  minutes :: nat
  seconds :: nat
  milliseconds :: nat

datatype Date = ValidDate civil civil | InvalidDate

fun getFullYear :: "Date \<Rightarrow> number" where
  "getFullYear (ValidDate loc utc) = Some (year loc)"
| "getFullYear InvalidDate = None"

fun getMonth :: "Date \<Rightarrow> number" where
  "getMonth (ValidDate loc utc) = Some (int (monthIndex loc))"
| "getMonth InvalidDate = None"

section \<open>useGrowth.ts\<close>

text \<open>\<open>MonthlySnapshotData\<close> is declared in \<open>useSnapshots\<close>; the fields are the
  ones the sources read: a month key and three numbers.\<close>

record 'n MonthlySnapshotData =
  month :: string
  assetsTotal :: 'n
  liabilitiesTotal :: 'n
  netWorth :: 'n

record 'n GrowthResult =
  growth :: 'n
  percentage :: 'n

datatype ValueKey = NetWorthKey | AssetsTotalKey | LiabilitiesTotalKey

text \<open>\<open>snapshot[valueKey]\<close>.\<close>

fun get_field :: "'n MonthlySnapshotData \<Rightarrow> ValueKey \<Rightarrow> 'n" where
  "get_field s NetWorthKey = netWorth s"
| "get_field s AssetsTotalKey = assetsTotal s"
| "get_field s LiabilitiesTotalKey = liabilitiesTotal s"

text \<open>
  The number operations \<open>calculateGrowth\<close> performs, in the host's arithmetic: the
  literals \<open>0\<close> and \<open>100\<close>, \<open>a - b\<close>, \<open>a / b\<close>, \<open>a * b\<close>,
  \<open>Math.abs(a)\<close> and \<open>a !== b\<close>.
\<close>

record 'n arithmetic =
  num_0 :: 'n
  num_100 :: 'n
  num_sub :: "'n \<Rightarrow> 'n \<Rightarrow> 'n"
  num_div :: "'n \<Rightarrow> 'n \<Rightarrow> 'n"
  num_mul :: "'n \<Rightarrow> 'n \<Rightarrow> 'n"
  num_abs :: "'n \<Rightarrow> 'n"
  num_ne :: "'n \<Rightarrow> 'n \<Rightarrow> bool"

text \<open>The arithmetic without rounding.\<close>

definition exact_arithmetic :: "real arithmetic" where
  "exact_arithmetic =
     \<lparr>num_0 = 0, num_100 = 100, num_sub = (\<lambda>a b. a - b), num_div = (\<lambda>a b. a / b),
      num_mul = (\<lambda>a b. a * b), num_abs = (\<lambda>a. \<bar>a\<bar>), num_ne = (\<lambda>a b. a \<noteq> b)\<rparr>"

text \<open>Lines 34-35: \<open>latestSnapshot?.[valueKey] ?? currentValue\<close>.\<close>

definition current_of :: "'n MonthlySnapshotData list \<Rightarrow> ValueKey \<Rightarrow> 'n \<Rightarrow> 'n" where
  "current_of snapshots valueKey currentValue =
     (case elem_at snapshots (length snapshots - 1) of
        None \<Rightarrow> currentValue
      | Some latestSnapshot \<Rightarrow> get_field latestSnapshot valueKey)"

text \<open>Line 51: \<open>`${startDate.getFullYear()}-${String(startDate.getMonth() + 1).padStart(2, '0')}`\<close>.\<close>

definition startMonth_of :: "Date \<Rightarrow> string" where
  "startMonth_of startDate =
     number_to_string (getFullYear startDate) @ ''-'' @
     padStart (number_to_string (map_option (\<lambda>m. m + 1) (getMonth startDate))) 2 (CHR ''0'')"

text \<open>Lines 54-59: \<open>snapshots.find(s => s.month >= startMonth)\<close>, then the first
  snapshot when nothing was found.\<close>

definition startSnapshot_of ::
  "'n MonthlySnapshotData list \<Rightarrow> string \<Rightarrow> 'n MonthlySnapshotData option" where
  "startSnapshot_of snapshots startMonth =
     (case find (\<lambda>s. str_ge (month s) startMonth) snapshots of
        Some s \<Rightarrow> Some s
      | None \<Rightarrow> elem_at snapshots 0)"

text \<open>\<open>calculateGrowth\<close>, with the host's arithmetic as the first argument,
  \<open>monthlySnapshots.value\<close> as the second and \<open>null\<close> for the start date as
  \<open>None\<close>.\<close>

definition calculateGrowth_with ::
  "'n arithmetic \<Rightarrow> 'n MonthlySnapshotData list \<Rightarrow> Date option \<Rightarrow> ValueKey \<Rightarrow> 'n \<Rightarrow>
   'n GrowthResult" where
  "calculateGrowth_with ar snapshots startDate valueKey currentValue =
     (if length snapshots = 0 then \<lparr>growth = num_0 ar, percentage = num_0 ar\<rparr>
      else
        let current = current_of snapshots valueKey currentValue in
        case startDate of
          None \<Rightarrow>
            (case elem_at snapshots 0 of
               None \<Rightarrow> \<lparr>growth = num_0 ar, percentage = num_0 ar\<rparr>
             | Some firstSnapshot \<Rightarrow>
                 if length snapshots < 2 then \<lparr>growth = num_0 ar, percentage = num_0 ar\<rparr>
                 else
                   let startValue = get_field firstSnapshot valueKey;
                       growth = num_sub ar current startValue;
                       percentage =
                         (if num_ne ar startValue (num_0 ar)
                          then num_mul ar (num_div ar growth (num_abs ar startValue)) (num_100 ar)
                          else num_0 ar)
                   in \<lparr>growth = growth, percentage = percentage\<rparr>)
        | Some d \<Rightarrow>
            (let startMonth = startMonth_of d in
             case startSnapshot_of snapshots startMonth of
               None \<Rightarrow> \<lparr>growth = num_0 ar, percentage = num_0 ar\<rparr>
             | Some startSnapshot \<Rightarrow>
                 let startValue = get_field startSnapshot valueKey;
                     growth = num_sub ar current startValue;
                     percentage =
                       (if num_ne ar startValue (num_0 ar)
                        then num_mul ar (num_div ar growth (num_abs ar startValue)) (num_100 ar)
                        else num_0 ar)
                 in \<lparr>growth = growth, percentage = percentage\<rparr>))"

text \<open>\<open>calculateGrowth\<close> in the exact arithmetic.\<close>

definition calculateGrowth ::
  "real MonthlySnapshotData list \<Rightarrow> Date option \<Rightarrow> ValueKey \<Rightarrow> real \<Rightarrow> real GrowthResult" where
  "calculateGrowth = calculateGrowth_with exact_arithmetic"

section \<open>The world the composables run in\<close>

text \<open>
  What the functions below read and write outside their arguments: the browser database
  (opaque, owned by \<open>useDatabase\<close>), the reactive \<open>monthlySnapshots.value\<close>
  of \<open>useSnapshots\<close>, the console and the clock behind \<open>new Date()\<close>, in its
  local and its UTC reading.
\<close>

record 'db env =
  db :: 'db
  monthlySnapshots :: "real MonthlySnapshotData list"
  console :: "string list list"
  now_local :: civil
  now_utc :: civil

text \<open>An \<open>async\<close> function runs from one world to a rejection or to a value and the
  next world; \<open>await\<close> is sequencing, and a rejection of the awaited promise
  rejects the caller.\<close>

datatype 'e failure = RangeError | Rejected 'e

type_synonym ('e, 'a, 'db) async = "'db env \<Rightarrow> 'e failure + 'a \<times> 'db env"

definition await :: "'e failure + 'a \<times> 's \<Rightarrow> ('a \<Rightarrow> 's \<Rightarrow> 'e failure + 'b \<times> 's) \<Rightarrow> 'e failure + 'b \<times> 's" where
  "await r k = (case r of Inl e \<Rightarrow> Inl e | Inr (a, s) \<Rightarrow> k a s)"


section \<open>The accounts composable\<close>

subsection \<open>parseInt, isNaN, toISOString\<close>

text \<open>\<open>parseInt(s, 10)\<close>: leading white space is dropped, one sign is read, then the
  longest run of decimal digits; no digit gives NaN. \<open>isNaN(numericId)\<close> is the
  case \<open>None\<close> of the result. The value is the integer the digits denote: the
  rounding of the source to a double (above \<open>2^53\<close>) is left out, which does not
  change which strings give NaN.\<close>

definition isWhiteSpace :: "char \<Rightarrow> bool" where
  "isWhiteSpace c = ((of_char c :: nat) \<in> set [9, 10, 11, 12, 13, 32, 160])"

definition isDigit :: "char \<Rightarrow> bool" where
  "isDigit c = (48 \<le> (of_char c :: nat) \<and> (of_char c :: nat) \<le> 57)"

definition digits_value :: "string \<Rightarrow> int" where
  "digits_value z = foldl (\<lambda>acc c. acc * 10 + (int (of_char c) - 48)) 0 z"

definition parseInt10 :: "string \<Rightarrow> number" where
  "parseInt10 input =
     (let s = dropWhile isWhiteSpace input;
          sign = (if s \<noteq> [] \<and> hd s = CHR ''-'' then - 1 else 1);
          s' = (if s \<noteq> [] \<and> (hd s = CHR ''+'' \<or> hd s = CHR ''-'') then tl s else s);
          z = takeWhile isDigit s'
      in if z = [] then None else Some (sign * digits_value z))"

definition pad_num :: "nat \<Rightarrow> nat \<Rightarrow> string" where
  "pad_num width n = padStart (nat_to_string n) width (CHR ''0'')"

definition iso_year :: "int \<Rightarrow> string" where
  "iso_year y =
     (if 0 \<le> y \<and> y \<le> 9999 then pad_num 4 (nat y)
      else (if y < 0 then ''-'' else ''+'') @ pad_num 6 (nat \<bar>y\<bar>))"

text \<open>\<open>Date.prototype.toISOString\<close>: the UTC reading as
  \<open>YYYY-MM-DDTHH:mm:ss.sssZ\<close> (a signed six-digit year outside 0..9999); it throws
  a RangeError on an invalid date.\<close>

fun toISOString :: "Date \<Rightarrow> 'e failure + string" where
  "toISOString InvalidDate = Inl RangeError"
| "toISOString (ValidDate loc utc) =
     Inr (iso_year (year utc) @ ''-'' @ pad_num 2 (monthIndex utc + 1) @ ''-'' @
          pad_num 2 (day utc) @ ''T'' @ pad_num 2 (hours utc) @ '':'' @
          pad_num 2 (minutes utc) @ '':'' @ pad_num 2 (seconds utc) @ ''.'' @
          pad_num 3 (milliseconds utc) @ ''Z'')"

text \<open>\<open>new Date()\<close>: always a valid date.\<close>

definition new_Date :: "'db env \<Rightarrow> Date" where
  "new_Date w = ValidDate (now_local w) (now_utc w)"

text \<open>\<open>s.slice(0, n)\<close>.\<close>

definition slice0 :: "string \<Rightarrow> nat \<Rightarrow> string" where
  "slice0 s n = take n s"

definition console_error :: "string list \<Rightarrow> 'db env \<Rightarrow> 'db env" where
  "console_error args w = w\<lparr>console := console w @ [args]\<rparr>"

subsection \<open>Data and collaborators\<close>

datatype OwnerType = Me | Spouse | Joint

text \<open>The optional field \<open>notes\<close> is \<open>account_notes\<close> here.\<close>

record AccountUpdate =
  name :: string
  bank :: string
  category :: string
  owner :: OwnerType
  account_notes :: "string option"

record AccountInput = AccountUpdate +
  initialBalance :: real

text \<open>A balance entry; a row of the database has these two fields and more.\<close>

record BalanceEntry =
  date :: string
  val :: real

text \<open>\<open>useDatabase()\<close> and \<open>useSnapshots()\<close> are not among the sources: their
  functions are parameters, each free to reject and to change the world.\<close>

record ('e, 'r, 'db) collaborators =
  dbAddAccount :: "AccountInput \<Rightarrow> ('e, unit, 'db) async"
  dbUpdateAccount :: "int \<Rightarrow> AccountUpdate \<Rightarrow> ('e, unit, 'db) async"
  dbUpdateBalance :: "int \<Rightarrow> real \<Rightarrow> string \<Rightarrow> ('e, unit, 'db) async"
  dbDeleteAccount :: "int \<Rightarrow> ('e, unit, 'db) async"
  getAccountBalances :: "int \<Rightarrow> ('e, 'r BalanceEntry_scheme list, 'db) async"
  loadSnapshots :: "('e, unit, 'db) async"

text \<open>The argument of \<open>getBalanceHistory\<close> is \<open>string | number\<close>.\<close>

datatype AccountIdArg = IdString string | IdNumber number

subsection \<open>The operations\<close>

definition getBalanceHistory ::
  "('e, 'r, 'db) collaborators \<Rightarrow> AccountIdArg \<Rightarrow> ('e, BalanceEntry list, 'db) async" where
  "getBalanceHistory api accountId w =
     (let numericId = (case accountId of IdNumber n \<Rightarrow> n | IdString s \<Rightarrow> parseInt10 s)
      in case numericId of
           None \<Rightarrow> Inr ([], w)
         | Some n \<Rightarrow>
             await (getAccountBalances api n w) (\<lambda>balances w1.
               Inr (map (\<lambda>b. \<lparr>date = date b, val = val b\<rparr>) balances, w1)))"


text \<open>Line 76: \<open>date || new Date().toISOString().slice(0, 10)\<close>; \<open>undefined\<close>
  (\<open>None\<close>) and the empty string are the falsy values of \<open>date\<close>, and the clock is
  read only for them.\<close>

definition dateStr_of :: "string option \<Rightarrow> 'db env \<Rightarrow> 'e failure + string" where
  "dateStr_of date_arg w =
     (case date_arg of
        Some d \<Rightarrow>
          if d \<noteq> [] then Inr d
          else map_sum id (\<lambda>iso. slice0 iso 10) (toISOString (new_Date w))
      | None \<Rightarrow> map_sum id (\<lambda>iso. slice0 iso 10) (toISOString (new_Date w)))"

definition updateBalance ::
  "('e, 'r, 'db) collaborators \<Rightarrow> string \<Rightarrow> real \<Rightarrow> string option \<Rightarrow> ('e, unit, 'db) async" where
  "updateBalance api accountId amount date_arg w =
     (let numericId = parseInt10 accountId
      in case numericId of
           None \<Rightarrow> Inr ((), console_error [''[useAccounts] Invalid account ID:'', accountId] w)
         | Some n \<Rightarrow>
             (case dateStr_of date_arg w of
                Inl e \<Rightarrow> Inl e
              | Inr dateStr \<Rightarrow>
                  await (dbUpdateBalance api n amount dateStr w) (\<lambda>_ w1.
                  await (loadSnapshots api w1) (\<lambda>_ w2.
                  Inr ((), w2)))))"

definition updateAccount ::
  "('e, 'r, 'db) collaborators \<Rightarrow> string \<Rightarrow> AccountUpdate \<Rightarrow> ('e, unit, 'db) async" where
  "updateAccount api accountId data w =
     (let numericId = parseInt10 accountId
      in case numericId of
           None \<Rightarrow> Inr ((), console_error [''[useAccounts] Invalid account ID:'', accountId] w)
         | Some n \<Rightarrow>
             await (dbUpdateAccount api n data w) (\<lambda>_ w1.
             await (loadSnapshots api w1) (\<lambda>_ w2.
             Inr ((), w2))))"

definition deleteAccount ::
  "('e, 'r, 'db) collaborators \<Rightarrow> string \<Rightarrow> ('e, unit, 'db) async" where
  "deleteAccount api accountId w =
     (let numericId = parseInt10 accountId
      in case numericId of
           None \<Rightarrow> Inr ((), console_error [''[useAccounts] Invalid account ID:'', accountId] w)
         | Some n \<Rightarrow>
             await (dbDeleteAccount api n w) (\<lambda>_ w1.
             await (loadSnapshots api w1) (\<lambda>_ w2.
             Inr ((), w2))))"

subsection \<open>The contract of the reload\<close>


section \<open>NetWorthCard.vue: the chart series\<close>

record ChartPoint =
  pt_x :: nat
  pt_assets :: real
  pt_liabilities :: real
  pt_netWorth :: real
  pt_month :: string
  pt_formattedDate :: string

text \<open>
  \<open>snapshots.map((s, index) => ...)\<close>. The month label
  \<open>new Intl.DateTimeFormat('en-US', { month: 'short' }).format(parseLocalDate(`${s.month}-01`))\<close>
  belongs to the host's \<open>Intl\<close>: it is the parameter \<open>formatShortMonth\<close>, applied to
  the date string, and it may throw (an invalid date is a RangeError).
\<close>

fun chart_points ::
  "(string \<Rightarrow> 'e + string) \<Rightarrow> nat \<Rightarrow> real MonthlySnapshotData list \<Rightarrow> 'e + ChartPoint list" where
  "chart_points formatShortMonth index [] = Inr []"
| "chart_points formatShortMonth index (s # rest) =
     (case formatShortMonth (month s @ ''-01'') of
        Inl e \<Rightarrow> Inl e
      | Inr label \<Rightarrow>
          (case chart_points formatShortMonth (Suc index) rest of
             Inl e \<Rightarrow> Inl e
           | Inr points \<Rightarrow>
               Inr (\<lparr>pt_x = index, pt_assets = assetsTotal s, pt_liabilities = liabilitiesTotal s,
                     pt_netWorth = netWorth s, pt_month = month s, pt_formattedDate = label\<rparr>
                    # points)))"

definition chartData ::
  "(string \<Rightarrow> 'e + string) \<Rightarrow> real MonthlySnapshotData list \<Rightarrow> 'e + ChartPoint list" where
  "chartData formatShortMonth snapshots_value =
     (let snapshots = filter (\<lambda>s. assetsTotal s > 0 \<or> liabilitiesTotal s > 0) snapshots_value
      in chart_points formatShortMonth 0 snapshots)"

text \<open>Each point of the series carries the four fields of the snapshot it was made
  from; \<open>point_source\<close> reads them back.\<close>

definition point_source :: "ChartPoint \<Rightarrow> real MonthlySnapshotData" where
  "point_source p =
     \<lparr>month = pt_month p, assetsTotal = pt_assets p, liabilitiesTotal = pt_liabilities p,
      netWorth = pt_netWorth p\<rparr>"

section \<open>Stand-ins for the collaborators\<close>

text \<open>
  Two sets of collaborators on which the operations can be run: one whose every call
  rejects, and an in-memory one whose database is a list of balance rows
  (account id, date, value) and whose reload derives one snapshot from each row.
\<close>

definition rejecting_api :: "(unit, unit, unit) collaborators" where
  "rejecting_api =
     \<lparr>dbAddAccount = (\<lambda>account w. Inl (Rejected ())),
      dbUpdateAccount = (\<lambda>n data w. Inl (Rejected ())),
      dbUpdateBalance = (\<lambda>n amount dateStr w. Inl (Rejected ())),
      dbDeleteAccount = (\<lambda>n w. Inl (Rejected ())),
      getAccountBalances = (\<lambda>n w. Inl (Rejected ())),
      loadSnapshots = (\<lambda>w. Inl (Rejected ()))\<rparr>"

definition memory_build :: "(int \<times> string \<times> real) list \<Rightarrow> real MonthlySnapshotData list" where
  "memory_build rows =
     map (\<lambda>row. \<lparr>month = take 7 (fst (snd row)), assetsTotal = snd (snd row),
                  liabilitiesTotal = 0, netWorth = snd (snd row)\<rparr>) rows"

definition memory_api :: "(unit, unit, (int \<times> string \<times> real) list) collaborators" where
  "memory_api =
     \<lparr>dbAddAccount = (\<lambda>account w. Inr ((), w\<lparr>db := db w @ [(0, ''new'', initialBalance account)]\<rparr>)),
      dbUpdateAccount = (\<lambda>n data w. Inr ((), w)),
      dbUpdateBalance = (\<lambda>n amount dateStr w. Inr ((), w\<lparr>db := db w @ [(n, dateStr, amount)]\<rparr>)),
      dbDeleteAccount = (\<lambda>n w. Inr ((), w\<lparr>db := filter (\<lambda>row. fst row \<noteq> n) (db w)\<rparr>)),
      getAccountBalances = (\<lambda>n w.
        Inr (map (\<lambda>row. \<lparr>date = fst (snd row), val = snd (snd row)\<rparr>)
               (filter (\<lambda>row. fst row = n) (db w)), w)),
      loadSnapshots = (\<lambda>w. Inr ((), w\<lparr>monthlySnapshots := memory_build (db w)\<rparr>))\<rparr>"

text \<open>A world with an empty database, at an instant that is 2024-12-31 20:00 on the
  local calendar and 2025-01-01 01:00 in UTC.\<close>

definition new_year_world :: "'db \<Rightarrow> 'db env" where
  "new_year_world d =
     \<lparr>db = d, monthlySnapshots = [], console = [],
      now_local = \<lparr>year = 2024, monthIndex = 11, day = 31, hours = 20, minutes = 0,
                    seconds = 0, milliseconds = 0\<rparr>,
      now_utc = \<lparr>year = 2025, monthIndex = 0, day = 1, hours = 1, minutes = 0,
                  seconds = 0, milliseconds = 0\<rparr>\<rparr>"

section \<open>Properties of calculateGrowth\<close>

subsection \<open>Auxiliary facts\<close>

lemma elem_at_0: "xs \<noteq> [] \<Longrightarrow> elem_at xs 0 = Some (hd xs)"
  by (cases xs) (simp_all add: elem_at_def)

lemma elem_at_last: "xs \<noteq> [] \<Longrightarrow> elem_at xs (length xs - 1) = Some (last xs)"
  by (simp add: elem_at_def last_conv_nth)

lemma current_of_nonempty:
  "snapshots \<noteq> [] \<Longrightarrow>
   current_of snapshots valueKey currentValue = get_field (last snapshots) valueKey"
  using elem_at_last [of snapshots] by (simp add: current_of_def)

lemma startSnapshot_of_nonempty:
  "snapshots \<noteq> [] \<Longrightarrow>
   startSnapshot_of snapshots key =
     Some (case find (\<lambda>s. str_ge (month s) key) snapshots of
             Some s \<Rightarrow> s | None \<Rightarrow> hd snapshots)"
  by (simp add: startSnapshot_of_def elem_at_0 split: option.splits)

lemma growth_with_from_start_date:
  "snapshots \<noteq> [] \<Longrightarrow>
   calculateGrowth_with ar snapshots (Some d) valueKey currentValue =
     (let startValue =
            get_field (case find (\<lambda>s. str_ge (month s) (startMonth_of d)) snapshots of
                         Some s \<Rightarrow> s | None \<Rightarrow> hd snapshots) valueKey;
          g = num_sub ar (get_field (last snapshots) valueKey) startValue
      in \<lparr>growth = g,
          percentage =
            (if num_ne ar startValue (num_0 ar)
             then num_mul ar (num_div ar g (num_abs ar startValue)) (num_100 ar)
             else num_0 ar)\<rparr>)"
  by (simp add: calculateGrowth_with_def current_of_nonempty startSnapshot_of_nonempty Let_def)

lemma growth_with_over_all_time:
  assumes "2 \<le> length snapshots"
  shows "calculateGrowth_with ar snapshots None valueKey currentValue =
     (let startValue = get_field (hd snapshots) valueKey;
          g = num_sub ar (get_field (last snapshots) valueKey) startValue
      in \<lparr>growth = g,
          percentage =
            (if num_ne ar startValue (num_0 ar)
             then num_mul ar (num_div ar g (num_abs ar startValue)) (num_100 ar)
             else num_0 ar)\<rparr>)"
proof -
  from assms have ne: "snapshots \<noteq> []" by auto
  from assms have "\<not> length snapshots < 2" by simp
  with ne show ?thesis
    by (simp add: calculateGrowth_with_def current_of_nonempty elem_at_0 Let_def)
qed

lemma growth_from_start_date:
  "snapshots \<noteq> [] \<Longrightarrow>
   calculateGrowth snapshots (Some d) valueKey currentValue =
     (let startValue =
            get_field (case find (\<lambda>s. str_ge (month s) (startMonth_of d)) snapshots of
                         Some s \<Rightarrow> s | None \<Rightarrow> hd snapshots) valueKey;
          g = get_field (last snapshots) valueKey - startValue
      in \<lparr>growth = g,
          percentage = (if startValue \<noteq> 0 then (g / \<bar>startValue\<bar>) * 100 else 0)\<rparr>)"
  by (simp add: calculateGrowth_def growth_with_from_start_date exact_arithmetic_def Let_def)

lemma growth_over_all_time:
  assumes "2 \<le> length snapshots"
  shows "calculateGrowth snapshots None valueKey currentValue =
     (let startValue = get_field (hd snapshots) valueKey;
          g = get_field (last snapshots) valueKey - startValue
      in \<lparr>growth = g,
          percentage = (if startValue \<noteq> 0 then (g / \<bar>startValue\<bar>) * 100 else 0)\<rparr>)"
  using assms
  by (simp add: calculateGrowth_def growth_with_over_all_time exact_arithmetic_def Let_def)

text \<open>The month key of a date whose local year has four digits is \<open>YYYY-MM\<close>.\<close>

lemma length_nat_to_string_upper:
  "0 < k \<Longrightarrow> n < 10 ^ k \<Longrightarrow> length (nat_to_string n) \<le> k"
proof (induction k arbitrary: n)
  case 0
  then show ?case by simp
next
  case (Suc k)
  show ?case
  proof (cases "n < 10")
    case True
    then show ?thesis by (simp add: nat_to_string.simps)
  next
    case False
    with Suc.prems have "0 < k" by (cases k) auto
    moreover from Suc.prems have "n div 10 < 10 ^ k"
      by (simp add: less_mult_imp_div_less mult.commute)
    ultimately have "length (nat_to_string (n div 10)) \<le> k" by (rule Suc.IH)
    with False show ?thesis by (simp add: nat_to_string.simps [of n])
  qed
qed

lemma length_nat_to_string_lower:
  "10 ^ k \<le> n \<Longrightarrow> k < length (nat_to_string n)"
proof (induction k arbitrary: n)
  case 0
  show ?case by (simp add: nat_to_string.simps [of n])
next
  case (Suc k)
  then have big: "\<not> n < 10" by (cases "n < 10") (auto simp: not_le [symmetric] intro: order_trans [of 10 "10 * 10 ^ k"])
  from Suc.prems have "10 ^ k \<le> n div 10" by (simp add: less_eq_div_iff_mult_less_eq mult.commute)
  then have "k < length (nat_to_string (n div 10))" by (rule Suc.IH)
  with big show ?case by (simp add: nat_to_string.simps [of n])
qed

lemma length_pad_num: "0 < k \<Longrightarrow> n < 10 ^ k \<Longrightarrow> length (pad_num k n) = k"
  using length_nat_to_string_upper [of k n] by (simp add: pad_num_def padStart_def)

lemma startMonth_of_four_digit_year:
  assumes "1000 \<le> year loc" and "year loc \<le> 9999" and "monthIndex loc < 12"
  shows "startMonth_of (ValidDate loc utc) =
           nat_to_string (nat (year loc)) @ ''-'' @ pad_num 2 (monthIndex loc + 1) \<and>
         length (nat_to_string (nat (year loc))) = 4 \<and>
         length (pad_num 2 (monthIndex loc + 1)) = 2"
proof -
  let ?y = "nat (year loc)"
  have "10 ^ 3 \<le> ?y" "?y < 10 ^ 4" using assms by auto
  then have "3 < length (nat_to_string ?y)" "length (nat_to_string ?y) \<le> 4"
    using length_nat_to_string_lower [of 3 ?y] length_nat_to_string_upper [of 4 ?y] by simp_all
  then have y: "length (nat_to_string ?y) = 4" by simp
  have m: "length (pad_num 2 (monthIndex loc + 1)) = 2"
    using assms(3) by (intro length_pad_num) simp_all
  have neg: "\<not> year loc < 0" using assms by simp
  have mo: "nat (int (monthIndex loc) + 1) = monthIndex loc + 1" by simp
  have "startMonth_of (ValidDate loc utc) =
           nat_to_string ?y @ ''-'' @ pad_num 2 (monthIndex loc + 1)"
    using neg by (simp add: startMonth_of_def number_to_string_def pad_num_def mo del: of_nat_Suc)
  with y m show ?thesis by simp
qed

subsection \<open>The claims\<close>

text \<open>
  C1. With a start date and a non-empty sequence, the start snapshot is the first one
  (in the order of the sequence) whose month key is \<open>>=\<close> the key derived from the
  start date, and the first snapshot of the sequence when no month is; the growth is
  measured from that snapshot's value. For the months 2024-01, 2024-02, 2024-03 with
  net worth 1000, 1100, 1300 and the start date 2023-01-01 the result is growth 300,
  percentage 30.
\<close>

theorem calculateGrowth_start_snapshot:
  "(snapshots \<noteq> [] \<longrightarrow>
      (\<exists>start.
         startSnapshot_of snapshots (startMonth_of d) = Some start \<and>
         (\<forall>i. i < length snapshots \<and> str_ge (month (snapshots ! i)) (startMonth_of d) \<and>
               (\<forall>j. j < i \<longrightarrow> \<not> str_ge (month (snapshots ! j)) (startMonth_of d))
               \<longrightarrow> start = snapshots ! i) \<and>
         ((\<forall>s \<in> set snapshots. \<not> str_ge (month s) (startMonth_of d))
            \<longrightarrow> start = snapshots ! 0) \<and>
         growth (calculateGrowth snapshots (Some d) valueKey currentValue) =
           get_field (last snapshots) valueKey - get_field start valueKey)) \<and>
   calculateGrowth
     [\<lparr>month = ''2024-01'', assetsTotal = a1, liabilitiesTotal = l1, netWorth = 1000\<rparr>,
      \<lparr>month = ''2024-02'', assetsTotal = a2, liabilitiesTotal = l2, netWorth = 1100\<rparr>,
      \<lparr>month = ''2024-03'', assetsTotal = a3, liabilitiesTotal = l3, netWorth = 1300\<rparr>]
     (Some (ValidDate \<lparr>year = 2023, monthIndex = 0, day = 1, hours = h, minutes = mi,
                        seconds = se, milliseconds = ms\<rparr> utc))
     NetWorthKey fallback
   = \<lparr>growth = 300, percentage = 30\<rparr>"
proof (intro conjI impI)
  assume ne: "snapshots \<noteq> []"
  let ?key = "startMonth_of d"
  let ?P = "\<lambda>s. str_ge (month s) ?key"
  let ?start = "case find ?P snapshots of Some s \<Rightarrow> s | None \<Rightarrow> hd snapshots"
  have sel: "startSnapshot_of snapshots ?key = Some ?start"
    using ne by (rule startSnapshot_of_nonempty)
  have first: "?start = snapshots ! i"
    if i: "i < length snapshots" "?P (snapshots ! i)"
      "\<forall>j. j < i \<longrightarrow> \<not> ?P (snapshots ! j)" for i
  proof (cases "find ?P snapshots")
    case None
    then have "\<not> ?P (snapshots ! i)"
      using i(1) by (simp add: find_None_iff)
    with i(2) show ?thesis by simp
  next
    case (Some s)
    then obtain k where k: "k < length snapshots" "?P (snapshots ! k)" "s = snapshots ! k"
      "\<forall>j<k. \<not> ?P (snapshots ! j)"
      by (auto simp: find_Some_iff)
    have "\<not> i < k" using k(4) i(2) by blast
    moreover have "\<not> k < i" using i(3) k(2) by blast
    ultimately have "i = k" by simp
    with Some k(3) show ?thesis by simp
  qed
  have fallback: "?start = snapshots ! 0" if "\<forall>s \<in> set snapshots. \<not> ?P s"
  proof -
    from that have "find ?P snapshots = None" by (simp add: find_None_iff)
    with ne show ?thesis by (simp add: hd_conv_nth)
  qed
  have g: "growth (calculateGrowth snapshots (Some d) valueKey currentValue) =
        get_field (last snapshots) valueKey - get_field ?start valueKey"
    using ne by (simp add: growth_from_start_date Let_def)
  from sel first fallback g
  show "\<exists>start.
         startSnapshot_of snapshots (startMonth_of d) = Some start \<and>
         (\<forall>i. i < length snapshots \<and> str_ge (month (snapshots ! i)) (startMonth_of d) \<and>
               (\<forall>j. j < i \<longrightarrow> \<not> str_ge (month (snapshots ! j)) (startMonth_of d))
               \<longrightarrow> start = snapshots ! i) \<and>
         ((\<forall>s \<in> set snapshots. \<not> str_ge (month s) (startMonth_of d))
            \<longrightarrow> start = snapshots ! 0) \<and>
         growth (calculateGrowth snapshots (Some d) valueKey currentValue) =
           get_field (last snapshots) valueKey - get_field start valueKey"
    by blast
next
  show "calculateGrowth
     [\<lparr>month = ''2024-01'', assetsTotal = a1, liabilitiesTotal = l1, netWorth = 1000\<rparr>,
      \<lparr>month = ''2024-02'', assetsTotal = a2, liabilitiesTotal = l2, netWorth = 1100\<rparr>,
      \<lparr>month = ''2024-03'', assetsTotal = a3, liabilitiesTotal = l3, netWorth = 1300\<rparr>]
     (Some (ValidDate \<lparr>year = 2023, monthIndex = 0, day = 1, hours = h, minutes = mi,
                        seconds = se, milliseconds = ms\<rparr> utc))
     NetWorthKey fallback
   = \<lparr>growth = 300, percentage = 30\<rparr>"
    by (simp add: growth_from_start_date startMonth_of_def number_to_string_def padStart_def
        nat_to_string.simps digit_char_def str_ge_def Let_def)
qed

text \<open>A start date in the middle of the history (2024-02-15) selects the second
  snapshot; one after it (2024-07-01) falls back to the first.\<close>

theorem calculateGrowth_start_snapshot_witness:
  "startSnapshot_of
     [\<lparr>month = ''2024-01'', assetsTotal = 0 :: real, liabilitiesTotal = 0, netWorth = 1000\<rparr>,
      \<lparr>month = ''2024-02'', assetsTotal = 0, liabilitiesTotal = 0, netWorth = 1100\<rparr>,
      \<lparr>month = ''2024-03'', assetsTotal = 0, liabilitiesTotal = 0, netWorth = 1300\<rparr>]
     (startMonth_of (ValidDate \<lparr>year = 2024, monthIndex = 1, day = 15, hours = 0, minutes = 0,
                                 seconds = 0, milliseconds = 0\<rparr>
                               \<lparr>year = 2024, monthIndex = 1, day = 15, hours = 0, minutes = 0,
                                 seconds = 0, milliseconds = 0\<rparr>))
   = Some \<lparr>month = ''2024-02'', assetsTotal = 0, liabilitiesTotal = 0, netWorth = 1100\<rparr> \<and>
   growth (calculateGrowth
     [\<lparr>month = ''2024-01'', assetsTotal = 0, liabilitiesTotal = 0, netWorth = 1000\<rparr>,
      \<lparr>month = ''2024-02'', assetsTotal = 0, liabilitiesTotal = 0, netWorth = 1100\<rparr>,
      \<lparr>month = ''2024-03'', assetsTotal = 0, liabilitiesTotal = 0, netWorth = 1300\<rparr>]
     (Some (ValidDate \<lparr>year = 2024, monthIndex = 1, day = 15, hours = 0, minutes = 0,
                        seconds = 0, milliseconds = 0\<rparr>
                      \<lparr>year = 2024, monthIndex = 1, day = 15, hours = 0, minutes = 0,
                        seconds = 0, milliseconds = 0\<rparr>))
     NetWorthKey 0) = 200 \<and>
   startSnapshot_of
     [\<lparr>month = ''2024-01'', assetsTotal = 0 :: real, liabilitiesTotal = 0, netWorth = 1000\<rparr>,
      \<lparr>month = ''2024-02'', assetsTotal = 0, liabilitiesTotal = 0, netWorth = 1100\<rparr>,
      \<lparr>month = ''2024-03'', assetsTotal = 0, liabilitiesTotal = 0, netWorth = 1300\<rparr>]
     (startMonth_of (ValidDate \<lparr>year = 2024, monthIndex = 6, day = 1, hours = 0, minutes = 0,
                                 seconds = 0, milliseconds = 0\<rparr>
                               \<lparr>year = 2024, monthIndex = 6, day = 1, hours = 0, minutes = 0,
                                 seconds = 0, milliseconds = 0\<rparr>))
   = Some \<lparr>month = ''2024-01'', assetsTotal = 0, liabilitiesTotal = 0, netWorth = 1000\<rparr>"
  using calculateGrowth_start_snapshot
    [of "[\<lparr>month = ''2024-01'', assetsTotal = 0, liabilitiesTotal = 0, netWorth = 1000\<rparr>,
          \<lparr>month = ''2024-02'', assetsTotal = 0, liabilitiesTotal = 0, netWorth = 1100\<rparr>,
          \<lparr>month = ''2024-03'', assetsTotal = 0, liabilitiesTotal = 0, netWorth = 1300\<rparr>]"
        "ValidDate \<lparr>year = 2024, monthIndex = 1, day = 15, hours = 0, minutes = 0,
                     seconds = 0, milliseconds = 0\<rparr>
                   \<lparr>year = 2024, monthIndex = 1, day = 15, hours = 0, minutes = 0,
                     seconds = 0, milliseconds = 0\<rparr>"
        NetWorthKey 0]
  by (simp add: startSnapshot_of_def growth_from_start_date startMonth_of_def
      number_to_string_def padStart_def nat_to_string.simps digit_char_def str_ge_def
      elem_at_def Let_def)

text \<open>
  C2. Whenever a result is computed from the snapshots (a non-empty sequence, and at
  least two snapshots when there is no start date), in every arithmetic of the host the
  growth is the value of the chosen field (\<open>netWorth\<close>, \<open>assetsTotal\<close> or
  \<open>liabilitiesTotal\<close>, as the key says) on the last snapshot minus the start value,
  and the percentage is the literal 0 when the start value is not \<open>!== 0\<close>, and
  otherwise the growth divided by \<open>Math.abs\<close> of the start value, the quotient then
  multiplied by 100, in this order of operations. In the exact arithmetic a start value
  of -50 and a last value of 100 give growth 150 and percentage 300; every step of
  that example (100 - (-50), |-50|, 150 / 50, 3 * 100) has integer operands and an
  integer result.
\<close>

theorem calculateGrowth_growth_and_percentage:
  "(snapshots \<noteq> [] \<and> (startDate = None \<longrightarrow> 2 \<le> length snapshots) \<longrightarrow>
     (let chosen =
            (case valueKey of
               NetWorthKey \<Rightarrow> netWorth
             | AssetsTotalKey \<Rightarrow> assetsTotal
             | LiabilitiesTotalKey \<Rightarrow> liabilitiesTotal);
          start =
            (case startDate of
               None \<Rightarrow> hd snapshots
             | Some d \<Rightarrow>
                 (case find (\<lambda>s. str_ge (month s) (startMonth_of d)) snapshots of
                    Some s \<Rightarrow> s | None \<Rightarrow> hd snapshots));
          startValue = chosen start;
          current = chosen (last snapshots);
          r = calculateGrowth_with ar snapshots startDate valueKey currentValue
      in growth r = num_sub ar current startValue \<and>
         percentage r =
           (if num_ne ar startValue (num_0 ar)
            then num_mul ar (num_div ar (growth r) (num_abs ar startValue)) (num_100 ar)
            else num_0 ar))) \<and>
   (exact \<noteq> [] \<and> (startDate = None \<longrightarrow> 2 \<le> length exact) \<longrightarrow>
     (let chosen =
            (case valueKey of
               NetWorthKey \<Rightarrow> netWorth
             | AssetsTotalKey \<Rightarrow> assetsTotal
             | LiabilitiesTotalKey \<Rightarrow> liabilitiesTotal);
          start =
            (case startDate of
               None \<Rightarrow> hd exact
             | Some d \<Rightarrow>
                 (case find (\<lambda>s. str_ge (month s) (startMonth_of d)) exact of
                    Some s \<Rightarrow> s | None \<Rightarrow> hd exact))
      in chosen start = - 50 \<and> chosen (last exact) = 100 \<longrightarrow>
         calculateGrowth exact startDate valueKey fallback =
           \<lparr>growth = 150, percentage = 300\<rparr>))"
proof (intro conjI impI)
  assume "snapshots \<noteq> [] \<and> (startDate = None \<longrightarrow> 2 \<le> length snapshots)"
  then have ne: "snapshots \<noteq> []" and two: "startDate = None \<longrightarrow> 2 \<le> length snapshots"
    by simp_all
  show "let chosen =
            (case valueKey of
               NetWorthKey \<Rightarrow> netWorth
             | AssetsTotalKey \<Rightarrow> assetsTotal
             | LiabilitiesTotalKey \<Rightarrow> liabilitiesTotal);
          start =
            (case startDate of
               None \<Rightarrow> hd snapshots
             | Some d \<Rightarrow>
                 (case find (\<lambda>s. str_ge (month s) (startMonth_of d)) snapshots of
                    Some s \<Rightarrow> s | None \<Rightarrow> hd snapshots));
          startValue = chosen start;
          current = chosen (last snapshots);
          r = calculateGrowth_with ar snapshots startDate valueKey currentValue
      in growth r = num_sub ar current startValue \<and>
         percentage r =
           (if num_ne ar startValue (num_0 ar)
            then num_mul ar (num_div ar (growth r) (num_abs ar startValue)) (num_100 ar)
            else num_0 ar)"
  proof (cases startDate)
    case None
    with two have "2 \<le> length snapshots" by simp
    with None show ?thesis
      by (cases valueKey) (simp_all add: growth_with_over_all_time Let_def)
  next
    case (Some d)
    with ne show ?thesis
      by (cases valueKey) (simp_all add: growth_with_from_start_date Let_def)
  qed
next
  assume "exact \<noteq> [] \<and> (startDate = None \<longrightarrow> 2 \<le> length exact)"
  then have ne: "exact \<noteq> []" and two: "startDate = None \<longrightarrow> 2 \<le> length exact"
    by simp_all
  show "let chosen =
            (case valueKey of
               NetWorthKey \<Rightarrow> netWorth
             | AssetsTotalKey \<Rightarrow> assetsTotal
             | LiabilitiesTotalKey \<Rightarrow> liabilitiesTotal);
          start =
            (case startDate of
               None \<Rightarrow> hd exact
             | Some d \<Rightarrow>
                 (case find (\<lambda>s. str_ge (month s) (startMonth_of d)) exact of
                    Some s \<Rightarrow> s | None \<Rightarrow> hd exact))
      in chosen start = - 50 \<and> chosen (last exact) = 100 \<longrightarrow>
         calculateGrowth exact startDate valueKey fallback =
           \<lparr>growth = 150, percentage = 300\<rparr>"
  proof (cases startDate)
    case None
    with two have "2 \<le> length exact" by simp
    with None show ?thesis
      by (cases valueKey) (simp_all add: growth_over_all_time Let_def)
  next
    case (Some d)
    with ne show ?thesis
      by (cases valueKey) (simp_all add: growth_from_start_date Let_def)
  qed
qed

text \<open>
  Two runs. In the exact arithmetic, liabilities that move from a credit of 50 to a debt
  of 100 while the other two fields hold other values. In an arithmetic on integers
  whose division truncates, assets that move from 1100 to 1300: the quotient
  \<open>200 / 1100\<close> is 0 there, so the percentage is 0, where multiplying first would
  give 18.
\<close>

theorem calculateGrowth_growth_and_percentage_witness:
  "calculateGrowth
     [\<lparr>month = ''2024-01'', assetsTotal = 10, liabilitiesTotal = - 50, netWorth = 60\<rparr>,
      \<lparr>month = ''2024-02'', assetsTotal = 40, liabilitiesTotal = 100, netWorth = - 60\<rparr>]
     None LiabilitiesTotalKey 0
   = \<lparr>growth = 150, percentage = 300\<rparr> \<and>
   calculateGrowth_with
     \<lparr>num_0 = 0, num_100 = 100, num_sub = (\<lambda>a b. a - b), num_div = (\<lambda>a b. a div b),
      num_mul = (\<lambda>a b. a * b), num_abs = (\<lambda>a. \<bar>a\<bar>), num_ne = (\<lambda>a b. a \<noteq> b)\<rparr>
     [\<lparr>month = ''2024-01'', assetsTotal = 1100 :: int, liabilitiesTotal = 7, netWorth = 1093\<rparr>,
      \<lparr>month = ''2024-02'', assetsTotal = 1300, liabilitiesTotal = 9, netWorth = 1291\<rparr>]
     None AssetsTotalKey 0
   = \<lparr>growth = 200, percentage = 0\<rparr>"
proof -
  have a: "calculateGrowth
     [\<lparr>month = ''2024-01'', assetsTotal = 10, liabilitiesTotal = - 50, netWorth = 60\<rparr>,
      \<lparr>month = ''2024-02'', assetsTotal = 40, liabilitiesTotal = 100, netWorth = - 60\<rparr>]
     None LiabilitiesTotalKey 0
   = \<lparr>growth = 150, percentage = 300\<rparr>"
    using calculateGrowth_growth_and_percentage
      [where exact =
          "[\<lparr>month = ''2024-01'', assetsTotal = 10, liabilitiesTotal = - 50, netWorth = 60\<rparr>,
            \<lparr>month = ''2024-02'', assetsTotal = 40, liabilitiesTotal = 100, netWorth = - 60\<rparr>]"
        and startDate = None and valueKey = LiabilitiesTotalKey and fallback = 0
        and snapshots = "[] :: real MonthlySnapshotData list" and ar = exact_arithmetic]
    by (simp add: Let_def)
  let ?trunc = "\<lparr>num_0 = 0 :: int, num_100 = 100, num_sub = (\<lambda>a b. a - b),
      num_div = (\<lambda>a b. a div b), num_mul = (\<lambda>a b. a * b), num_abs = (\<lambda>a. \<bar>a\<bar>),
      num_ne = (\<lambda>a b. a \<noteq> b)\<rparr>"
  let ?xs = "[\<lparr>month = ''2024-01'', assetsTotal = 1100 :: int, liabilitiesTotal = 7,
                netWorth = 1093\<rparr>,
              \<lparr>month = ''2024-02'', assetsTotal = 1300, liabilitiesTotal = 9,
                netWorth = 1291\<rparr>]"
  let ?r = "calculateGrowth_with ?trunc ?xs None AssetsTotalKey 0"
  have "growth ?r = 200 \<and> percentage ?r = 0"
    using calculateGrowth_growth_and_percentage
      [where snapshots = ?xs and ar = ?trunc and startDate = None
        and valueKey = AssetsTotalKey and currentValue = 0
        and exact = "[]"]
    by (simp add: Let_def)
  then have b: "?r = \<lparr>growth = 200, percentage = 0\<rparr>"
    by (cases ?r) simp
  from a b show ?thesis by simp
qed

text \<open>
  C3. With no start date and fewer than two snapshots the result is growth 0,
  percentage 0, whatever the field and the current value passed.
\<close>

theorem calculateGrowth_all_time_short_history:
  "length snapshots < 2 \<Longrightarrow>
   calculateGrowth snapshots None valueKey currentValue = \<lparr>growth = 0, percentage = 0\<rparr>"
  by (simp add: calculateGrowth_def calculateGrowth_with_def exact_arithmetic_def
      split: option.splits)

theorem calculateGrowth_all_time_short_history_witness:
  "length [\<lparr>month = ''2024-01'', assetsTotal = 10 :: real, liabilitiesTotal = 3,
             netWorth = 7\<rparr>] < 2 \<and>
   calculateGrowth
     [\<lparr>month = ''2024-01'', assetsTotal = 10, liabilitiesTotal = 3, netWorth = 7\<rparr>]
     None NetWorthKey 99
   = \<lparr>growth = 0, percentage = 0\<rparr>"
  using calculateGrowth_all_time_short_history
    [of "[\<lparr>month = ''2024-01'', assetsTotal = 10, liabilitiesTotal = 3, netWorth = 7\<rparr>]"
        NetWorthKey 99]
  by simp

text \<open>
  C4. On the empty sequence the result is growth 0, percentage 0 for every field, every
  start date and every current value; the function has no failing branch.
\<close>

theorem calculateGrowth_empty:
  "calculateGrowth [] startDate valueKey currentValue = \<lparr>growth = 0, percentage = 0\<rparr>"
  by (simp add: calculateGrowth_def calculateGrowth_with_def exact_arithmetic_def)

text \<open>
  C7. On a non-empty sequence the current value is the chosen field of the last
  snapshot, the \<open>currentValue\<close> argument is not used, and two calls that differ only
  in it return the same result.
\<close>

theorem calculateGrowth_ignores_currentValue:
  "snapshots \<noteq> [] \<Longrightarrow>
   current_of snapshots valueKey c1 = get_field (last snapshots) valueKey \<and>
   calculateGrowth snapshots startDate valueKey c1 =
     calculateGrowth snapshots startDate valueKey c2"
  by (simp add: calculateGrowth_def calculateGrowth_with_def current_of_nonempty)

theorem calculateGrowth_ignores_currentValue_witness:
  "[\<lparr>month = ''2024-01'', assetsTotal = 10 :: real, liabilitiesTotal = 3, netWorth = 7\<rparr>,
    \<lparr>month = ''2024-02'', assetsTotal = 12, liabilitiesTotal = 3, netWorth = 9\<rparr>] \<noteq> [] \<and>
   current_of
     [\<lparr>month = ''2024-01'', assetsTotal = 10 :: real, liabilitiesTotal = 3, netWorth = 7\<rparr>,
      \<lparr>month = ''2024-02'', assetsTotal = 12, liabilitiesTotal = 3, netWorth = 9\<rparr>]
     AssetsTotalKey 1000 = 12 \<and>
   calculateGrowth
     [\<lparr>month = ''2024-01'', assetsTotal = 10, liabilitiesTotal = 3, netWorth = 7\<rparr>,
      \<lparr>month = ''2024-02'', assetsTotal = 12, liabilitiesTotal = 3, netWorth = 9\<rparr>]
     None AssetsTotalKey 1000 =
   calculateGrowth
     [\<lparr>month = ''2024-01'', assetsTotal = 10, liabilitiesTotal = 3, netWorth = 7\<rparr>,
      \<lparr>month = ''2024-02'', assetsTotal = 12, liabilitiesTotal = 3, netWorth = 9\<rparr>]
     None AssetsTotalKey 0"
  using calculateGrowth_ignores_currentValue
    [of "[\<lparr>month = ''2024-01'', assetsTotal = 10, liabilitiesTotal = 3, netWorth = 7\<rparr>,
          \<lparr>month = ''2024-02'', assetsTotal = 12, liabilitiesTotal = 3, netWorth = 9\<rparr>]"
        AssetsTotalKey 1000 None 0]
  by simp



section \<open>Properties of the accounts composable\<close>

subsection \<open>Auxiliary facts\<close>

lemma await_unit: "await r (\<lambda>_ w2. Inr ((), w2)) = r"
  by (auto simp: await_def split: sum.splits)


lemma toISOString_new_Date:
  "toISOString (new_Date w) =
     Inr (iso_year (year (now_utc w)) @ ''-'' @ pad_num 2 (monthIndex (now_utc w) + 1) @ ''-'' @
          pad_num 2 (day (now_utc w)) @ ''T'' @ pad_num 2 (hours (now_utc w)) @ '':'' @
          pad_num 2 (minutes (now_utc w)) @ '':'' @ pad_num 2 (seconds (now_utc w)) @ ''.'' @
          pad_num 3 (milliseconds (now_utc w)) @ ''Z'')"
  by (simp add: new_Date_def)

lemma updateBalance_valid:
  "parseInt10 accountId = Some n \<Longrightarrow>
   updateBalance api accountId amount date_arg w =
     (case dateStr_of date_arg w of
        Inl e \<Rightarrow> Inl e
      | Inr dateStr \<Rightarrow>
          await (dbUpdateBalance api n amount dateStr w) (\<lambda>_. loadSnapshots api))"
  by (simp add: updateBalance_def await_unit split: sum.splits)

lemma take_date_prefix:
  assumes "length y = 4" and "length m = 2" and "length d = 2"
  shows "take 10 (y @ ''-'' @ m @ ''-'' @ d @ rest) = y @ ''-'' @ m @ ''-'' @ d"
  using assms by simp

subsection \<open>The claims\<close>

text \<open>
  C5. For an account id string that \<open>parseInt\<close> turns into NaN,
  \<open>getBalanceHistory\<close> resolves with the empty list in an unchanged world, and
  \<open>updateBalance\<close>, \<open>updateAccount\<close> and \<open>deleteAccount\<close> resolve in a world
  that differs by one console line only: whatever the collaborators are, none of them
  is called, so no database operation and no snapshot reload happens, and nothing is
  thrown.
\<close>

theorem invalid_account_id_degrades:
  "parseInt10 accountId = None \<Longrightarrow>
   getBalanceHistory api (IdString accountId) w = Inr ([], w) \<and>
   updateBalance api accountId amount date_arg w =
     Inr ((), console_error [''[useAccounts] Invalid account ID:'', accountId] w) \<and>
   updateAccount api accountId data w =
     Inr ((), console_error [''[useAccounts] Invalid account ID:'', accountId] w) \<and>
   deleteAccount api accountId w =
     Inr ((), console_error [''[useAccounts] Invalid account ID:'', accountId] w) \<and>
   db (console_error [''[useAccounts] Invalid account ID:'', accountId] w) = db w \<and>
   monthlySnapshots (console_error [''[useAccounts] Invalid account ID:'', accountId] w) =
     monthlySnapshots w"
  by (simp add: getBalanceHistory_def updateBalance_def updateAccount_def deleteAccount_def
      console_error_def)

text \<open>The id \<open>abc\<close> with collaborators that reject every call: all four operations
  resolve.\<close>

theorem invalid_account_id_degrades_witness:
  "parseInt10 ''abc'' = None \<and>
   getBalanceHistory rejecting_api (IdString ''abc'') (new_year_world ()) =
     Inr ([], new_year_world ()) \<and>
   updateBalance rejecting_api ''abc'' 10 None (new_year_world ()) =
     Inr ((), (new_year_world ())\<lparr>console := [[''[useAccounts] Invalid account ID:'', ''abc'']]\<rparr>) \<and>
   deleteAccount rejecting_api ''abc'' (new_year_world ()) =
     Inr ((), (new_year_world ())\<lparr>console := [[''[useAccounts] Invalid account ID:'', ''abc'']]\<rparr>)"
proof -
  have nan: "parseInt10 ''abc'' = None"
    by (simp add: parseInt10_def isWhiteSpace_def isDigit_def)
  show ?thesis
    using nan invalid_account_id_degrades [OF nan, of rejecting_api "new_year_world ()" 10 None]
    by (simp add: console_error_def new_year_world_def)
qed



text \<open>
  C9. For an id that parses to a number, when the date argument is omitted
  (\<open>undefined\<close>) or the empty string, the date handed to the database update is the
  first ten characters of the ISO timestamp of the current instant, read in UTC; for a
  year of four digits that is the UTC day as \<open>YYYY-MM-DD\<close>, and the local reading
  of the clock has no part in it. Any other date string is handed over as it is.
\<close>

theorem updateBalance_default_date_is_utc_day:
  fixes api :: "('e, 'r, 'db) collaborators"
  shows
  "parseInt10 accountId = Some n \<Longrightarrow>
   (\<exists>iso. toISOString (new_Date w) = (Inr iso :: 'e failure + string) \<and>
      (date_arg = None \<or> date_arg = Some [] \<longrightarrow>
         updateBalance api accountId amount date_arg w =
           await (dbUpdateBalance api n amount (slice0 iso 10) w) (\<lambda>_. loadSnapshots api)) \<and>
      (0 \<le> year (now_utc w) \<and> year (now_utc w) \<le> 9999 \<and>
       monthIndex (now_utc w) < 12 \<and> day (now_utc w) < 100 \<longrightarrow>
         slice0 iso 10 =
           pad_num 4 (nat (year (now_utc w))) @ ''-'' @
           pad_num 2 (monthIndex (now_utc w) + 1) @ ''-'' @
           pad_num 2 (day (now_utc w)) \<and>
         length (slice0 iso 10) = 10)) \<and>
   (\<forall>d. date_arg = Some d \<and> d \<noteq> [] \<longrightarrow>
      updateBalance api accountId amount date_arg w =
        await (dbUpdateBalance api n amount d w) (\<lambda>_. loadSnapshots api)) \<and>
   (dateStr_of date_arg (w\<lparr>now_local := c\<rparr>) :: 'e failure + string) = dateStr_of date_arg w"
proof -
  assume ok: "parseInt10 accountId = Some n"
  let ?u = "now_utc w"
  let ?iso = "iso_year (year ?u) @ ''-'' @ pad_num 2 (monthIndex ?u + 1) @ ''-'' @
          pad_num 2 (day ?u) @ ''T'' @ pad_num 2 (hours ?u) @ '':'' @
          pad_num 2 (minutes ?u) @ '':'' @ pad_num 2 (seconds ?u) @ ''.'' @
          pad_num 3 (milliseconds ?u) @ ''Z''"
  have iso: "toISOString (new_Date w) = (Inr ?iso :: 'e failure + string)"
    by (rule toISOString_new_Date)
  have falsy: "updateBalance api accountId amount date_arg w =
           await (dbUpdateBalance api n amount (slice0 ?iso 10) w) (\<lambda>_. loadSnapshots api)"
    if "date_arg = None \<or> date_arg = Some []"
    using that by (auto simp: updateBalance_valid [OF ok] dateStr_of_def iso)
  have shape: "slice0 ?iso 10 =
           pad_num 4 (nat (year ?u)) @ ''-'' @ pad_num 2 (monthIndex ?u + 1) @ ''-'' @
           pad_num 2 (day ?u) \<and> length (slice0 ?iso 10) = 10"
    if r: "0 \<le> year ?u \<and> year ?u \<le> 9999 \<and> monthIndex ?u < 12 \<and> day ?u < 100"
  proof -
    from r have "nat (year ?u) < 10 ^ 4" by auto
    then have y: "length (pad_num 4 (nat (year ?u))) = 4" by (intro length_pad_num) simp_all
    from r have m: "length (pad_num 2 (monthIndex ?u + 1)) = 2"
      by (intro length_pad_num) auto
    from r have d: "length (pad_num 2 (day ?u)) = 2" by (intro length_pad_num) auto
    from r have "iso_year (year ?u) = pad_num 4 (nat (year ?u))" by (simp add: iso_year_def)
    then show ?thesis
      using take_date_prefix [OF y m d] y m d by (simp add: slice0_def)
  qed
  have given: "updateBalance api accountId amount date_arg w =
        await (dbUpdateBalance api n amount d w) (\<lambda>_. loadSnapshots api)"
    if "date_arg = Some d \<and> d \<noteq> []" for d
    using that by (auto simp: updateBalance_valid [OF ok] dateStr_of_def)
  have utc: "(dateStr_of date_arg (w\<lparr>now_local := c\<rparr>) :: 'e failure + string) =
      dateStr_of date_arg w"
    by (simp add: dateStr_of_def new_Date_def split: option.splits)
  from iso falsy shape given utc show ?thesis by blast
qed

text \<open>At an instant that is 2024-12-31 on the local calendar and 2025-01-01 in UTC, an
  update without a date is stored under 2025-01-01.\<close>

theorem updateBalance_default_date_is_utc_day_witness:
  "parseInt10 ''42'' = Some 42 \<and>
   updateBalance memory_api ''42'' 500 None (new_year_world []) =
     Inr ((), (new_year_world [])
        \<lparr>db := [(42, ''2025-01-01'', 500)],
         monthlySnapshots :=
           [\<lparr>month = ''2025-01'', assetsTotal = 500, liabilitiesTotal = 0, netWorth = 500\<rparr>]\<rparr>) \<and>
   day (now_local (new_year_world ([] :: (int \<times> string \<times> real) list))) = 31"
proof -
  have id: "parseInt10 ''42'' = Some 42"
    by (simp add: parseInt10_def isWhiteSpace_def isDigit_def digits_value_def)
  have pads: "pad_num 4 2025 = ''2025''" "pad_num 2 1 = ''01''"
    by (simp_all add: pad_num_def padStart_def nat_to_string.simps digit_char_def)
  show ?thesis
    using id pads
      updateBalance_default_date_is_utc_day
        [OF id, where api = memory_api and w = "new_year_world []" and date_arg = None
           and amount = 500]
    by (auto simp: memory_api_def memory_build_def new_year_world_def await_def new_Date_def)
qed

section \<open>Properties of the chart series\<close>

lemma chart_points_series:
  "(\<forall>s \<in> set xs. \<exists>label. formatShortMonth (month s @ ''-01'') = Inr label) \<Longrightarrow>
   \<exists>points. chart_points formatShortMonth i xs = Inr points \<and>
     map point_source points = xs \<and> map pt_x points = [i..<i + length xs]"
proof (induction xs arbitrary: i)
  case Nil
  then show ?case by simp
next
  case (Cons s rest)
  from Cons.prems obtain label where l: "formatShortMonth (month s @ ''-01'') = Inr label"
    by auto
  from Cons.prems have "\<forall>t \<in> set rest. \<exists>label. formatShortMonth (month t @ ''-01'') = Inr label"
    by simp
  then obtain points where p: "chart_points formatShortMonth (Suc i) rest = Inr points"
    "map point_source points = rest" "map pt_x points = [Suc i..<Suc i + length rest]"
    using Cons.IH [of "Suc i"] by blast
  let ?pt = "\<lparr>pt_x = i, pt_assets = assetsTotal s, pt_liabilities = liabilitiesTotal s,
     pt_netWorth = netWorth s, pt_month = month s, pt_formattedDate = label\<rparr>"
  have c1: "chart_points formatShortMonth i (s # rest) = Inr (?pt # points)"
    using l p(1) by simp
  have c2: "map point_source (?pt # points) = s # rest"
    using p(2) by (simp add: point_source_def)
  have "[i..<i + length (s # rest)] = i # [Suc i..<Suc i + length rest]"
    by (subst upt_rec) simp
  then have c3: "map pt_x (?pt # points) = [i..<i + length (s # rest)]"
    using p(3) by simp
  show ?case
    by (rule exI [of _ "?pt # points"]) (simp only: c1 c2 c3 simp_thms)
qed

text \<open>
  C10. The series of the dashboard chart is made of exactly the cached snapshots with
  \<open>assetsTotal > 0\<close> or \<open>liabilitiesTotal > 0\<close>, in their order, numbered from 0;
  a snapshot with both totals \<open><= 0\<close> is left out. So a month can be missing from the
  plot although the snapshots have no gap: of 2024-01, 2024-02, 2024-03 with an empty
  February, the series has 2024-01 and 2024-03. (The series exists when the host's
  month formatter accepts the months that are kept.)
\<close>

theorem chartData_keeps_positive_months:
  "((\<forall>s \<in> set snapshots. 0 < assetsTotal s \<or> 0 < liabilitiesTotal s \<longrightarrow>
        (\<exists>label. formatShortMonth (month s @ ''-01'') = Inr label)) \<longrightarrow>
      (\<exists>series.
         chartData formatShortMonth snapshots = Inr series \<and>
         map point_source series =
           filter (\<lambda>s. 0 < assetsTotal s \<or> 0 < liabilitiesTotal s) snapshots \<and>
         map pt_x series = [0..<length series] \<and>
         (\<forall>s \<in> set snapshots.
            s \<in> set (map point_source series) \<longleftrightarrow>
            \<not> (assetsTotal s \<le> 0 \<and> liabilitiesTotal s \<le> 0)))) \<and>
   (formatShortMonth ''2024-01-01'' = Inr jan \<and> formatShortMonth ''2024-03-01'' = Inr mar \<longrightarrow>
      chartData formatShortMonth
        [\<lparr>month = ''2024-01'', assetsTotal = 1000, liabilitiesTotal = 200, netWorth = 800\<rparr>,
         \<lparr>month = ''2024-02'', assetsTotal = 0, liabilitiesTotal = 0, netWorth = 0\<rparr>,
         \<lparr>month = ''2024-03'', assetsTotal = 1200, liabilitiesTotal = 0, netWorth = 1200\<rparr>]
      = Inr [\<lparr>pt_x = 0, pt_assets = 1000, pt_liabilities = 200, pt_netWorth = 800,
               pt_month = ''2024-01'', pt_formattedDate = jan\<rparr>,
             \<lparr>pt_x = 1, pt_assets = 1200, pt_liabilities = 0, pt_netWorth = 1200,
               pt_month = ''2024-03'', pt_formattedDate = mar\<rparr>])"
proof (intro conjI impI)
  let ?keep = "\<lambda>s. 0 < assetsTotal s \<or> 0 < liabilitiesTotal s"
  assume fmt: "\<forall>s \<in> set snapshots. 0 < assetsTotal s \<or> 0 < liabilitiesTotal s \<longrightarrow>
        (\<exists>label. formatShortMonth (month s @ ''-01'') = Inr label)"
  then have "\<forall>s \<in> set (filter ?keep snapshots).
      \<exists>label. formatShortMonth (month s @ ''-01'') = Inr label"
    by auto
  then obtain series where s: "chart_points formatShortMonth 0 (filter ?keep snapshots) = Inr series"
    "map point_source series = filter ?keep snapshots"
    "map pt_x series = [0..<0 + length (filter ?keep snapshots)]"
    using chart_points_series [of "filter ?keep snapshots" formatShortMonth 0] by blast
  from s(2) have len: "length series = length (filter ?keep snapshots)"
    by (metis length_map)
  have a: "chartData formatShortMonth snapshots = Inr series"
    using s(1) by (simp add: chartData_def)
  have b: "map pt_x series = [0..<length series]"
    using s(3) len by simp
  have c: "\<forall>s \<in> set snapshots.
            s \<in> set (map point_source series) \<longleftrightarrow>
            \<not> (assetsTotal s \<le> 0 \<and> liabilitiesTotal s \<le> 0)"
    unfolding s(2) by (auto simp: not_le)
  from a s(2) b c
  show "\<exists>series.
         chartData formatShortMonth snapshots = Inr series \<and>
         map point_source series = filter ?keep snapshots \<and>
         map pt_x series = [0..<length series] \<and>
         (\<forall>s \<in> set snapshots.
            s \<in> set (map point_source series) \<longleftrightarrow>
            \<not> (assetsTotal s \<le> 0 \<and> liabilitiesTotal s \<le> 0))"
    by blast
next
  assume "formatShortMonth ''2024-01-01'' = Inr jan \<and> formatShortMonth ''2024-03-01'' = Inr mar"
  then show "chartData formatShortMonth
        [\<lparr>month = ''2024-01'', assetsTotal = 1000, liabilitiesTotal = 200, netWorth = 800\<rparr>,
         \<lparr>month = ''2024-02'', assetsTotal = 0, liabilitiesTotal = 0, netWorth = 0\<rparr>,
         \<lparr>month = ''2024-03'', assetsTotal = 1200, liabilitiesTotal = 0, netWorth = 1200\<rparr>]
      = Inr [\<lparr>pt_x = 0, pt_assets = 1000, pt_liabilities = 200, pt_netWorth = 800,
               pt_month = ''2024-01'', pt_formattedDate = jan\<rparr>,
             \<lparr>pt_x = 1, pt_assets = 1200, pt_liabilities = 0, pt_netWorth = 1200,
               pt_month = ''2024-03'', pt_formattedDate = mar\<rparr>]"
    by (simp add: chartData_def)
qed

text \<open>With a formatter that answers the month digits of the date string, and a
  snapshot whose only balance is a liability in credit.\<close>

theorem chartData_keeps_positive_months_witness:
  "chartData (\<lambda>dateStr. (Inr (take 2 (drop 5 dateStr)) :: unit + string))
     [\<lparr>month = ''2024-01'', assetsTotal = 1000, liabilitiesTotal = 200, netWorth = 800\<rparr>,
      \<lparr>month = ''2024-02'', assetsTotal = 0, liabilitiesTotal = - 50, netWorth = 50\<rparr>,
      \<lparr>month = ''2024-03'', assetsTotal = 0, liabilitiesTotal = 300, netWorth = - 300\<rparr>]
   = Inr [\<lparr>pt_x = 0, pt_assets = 1000, pt_liabilities = 200, pt_netWorth = 800,
            pt_month = ''2024-01'', pt_formattedDate = ''01''\<rparr>,
          \<lparr>pt_x = 1, pt_assets = 0, pt_liabilities = 300, pt_netWorth = - 300,
            pt_month = ''2024-03'', pt_formattedDate = ''03''\<rparr>]"
  using chartData_keeps_positive_months
    [of "[\<lparr>month = ''2024-01'', assetsTotal = 1000, liabilitiesTotal = 200, netWorth = 800\<rparr>,
          \<lparr>month = ''2024-02'', assetsTotal = 0, liabilitiesTotal = - 50, netWorth = 50\<rparr>,
          \<lparr>month = ''2024-03'', assetsTotal = 0, liabilitiesTotal = 300, netWorth = - 300\<rparr>]"
        "\<lambda>dateStr. (Inr (take 2 (drop 5 dateStr)) :: unit + string)" "''01''" "''03''"]
  by (simp add: chartData_def)

end
